theory Spec2Isabelle
  imports Complex_Main "HOL-Library.Char_ord" "HOL-Library.List_Lexorder"
    "HOL-Library.Multiset" "HOL-Library.Sublist"
begin

section \<open>Data model of app.py\<close>

text \<open>
  The four tables created by \<^verbatim>\<open>init_db\<close>. A table is the list of its rows in rowid
  order; a row is a record with one field per column. Column names are prefixed with
  the table alias (\<^verbatim>\<open>u\<close>, \<^verbatim>\<open>p\<close>, \<^verbatim>\<open>a\<close>, \<^verbatim>\<open>mr\<close>) because several tables share the
  names \<^verbatim>\<open>id\<close>, \<^verbatim>\<open>name\<close> and \<^verbatim>\<open>doctor_name\<close>. Text is a \<^typ>\<open>string\<close>, one \<^typ>\<open>char\<close>
  per character, compared by character code as the BINARY collation does. A value that
  may be of several storage classes is an \<^verbatim>\<open>sval\<close>: an integer, a floating-point number
  (as the real number it denotes) or text.
\<close>

datatype sval = IntV int | RealV real | TextV string

record user =
  u_id :: int
  u_username :: string
  u_password_hash :: string
  u_role :: string
  u_full_name :: string
  u_email :: string
  u_created_at :: string

record patient =
  p_id :: int
  p_name :: string
  p_age :: sval
  p_gender :: string
  p_address :: string
  p_phone :: string

record appointment =
  a_id :: int
  a_patient_name :: string
  a_doctor_name :: string
  a_date :: string
  a_time :: string

text \<open>
  \<^verbatim>\<open>medical_records.patient_id\<close> has INTEGER affinity and is filled from form text that
  nothing validates. \<^term>\<open>Some n\<close> is a stored integer \<open>n\<close>; \<^term>\<open>None\<close> is any other stored
  value (NULL, or text that is not a number), which equals no \<^verbatim>\<open>patients.id\<close>.
\<close>

record medical_record =
  mr_id :: int
  mr_patient_id :: "int option"
  mr_doctor_name :: string
  mr_diagnosis :: string
  mr_treatment :: string
  mr_prescription :: string
  mr_notes :: string
  mr_visit_date :: string
  mr_created_at :: string

text \<open>
  \<^verbatim>\<open>users_seq\<close> is the AUTOINCREMENT counter of the users table (its row of
  \<^verbatim>\<open>sqlite_sequence\<close>): the largest id ever handed out.
\<close>

record database =
  users :: "user list"
  users_seq :: int
  patients :: "patient list"
  appointments :: "appointment list"
  medical_records :: "medical_record list"

section \<open>Requests, sessions and responses\<close>

text \<open>
  The Flask \<^verbatim>\<open>session\<close> is a dictionary, \<^verbatim>\<open>flash(message, category)\<close> appends to the
  notices shown on the next page, and a view returns either a redirect to the URL of
  an endpoint or a rendered template with its payload. A form field read with
  \<^verbatim>\<open>request.form[key]\<close> that is absent aborts the request with status 400.
\<close>

record world =
  session :: "string \<rightharpoonup> sval"
  flashed :: "(string \<times> string) list"
  db :: database

datatype request_method = GET | POST

type_synonym form = "string \<rightharpoonup> string"

datatype endpoint =
  EP_index | EP_login | EP_dashboard | EP_view_users | EP_view_medical_records
  | EP_view_patients | EP_view_appointments

fun url_for :: "endpoint \<Rightarrow> string" where
  "url_for EP_index = ''/''"
| "url_for EP_login = ''/login''"
| "url_for EP_dashboard = ''/dashboard''"
| "url_for EP_view_users = ''/users''"
| "url_for EP_view_medical_records = ''/medical_records''"
| "url_for EP_view_patients = ''/view_patients''"
| "url_for EP_view_appointments = ''/view_appointments''"

datatype 'a response = Redirect string | Render string 'a | Abort nat

definition flash :: "string \<Rightarrow> string \<Rightarrow> world \<Rightarrow> world" where
  "flash message category w = w\<lparr>flashed := flashed w @ [(message, category)]\<rparr>"

section \<open>Session gate\<close>

definition login_required ::
  "(world \<Rightarrow> 'a response \<times> world) \<Rightarrow> world \<Rightarrow> 'a response \<times> world" where
  "login_required f w =
     (if ''user_id'' \<notin> dom (session w)
      then (Redirect (url_for EP_login), flash ''Please log in to access this page.'' ''error'' w)
      else f w)"

definition admin_required ::
  "(world \<Rightarrow> 'a response \<times> world) \<Rightarrow> world \<Rightarrow> 'a response \<times> world" where
  "admin_required f w =
     (if ''user_id'' \<notin> dom (session w)
      then (Redirect (url_for EP_login), flash ''Please log in to access this page.'' ''error'' w)
      else if session w ''user_role'' \<noteq> Some (TextV ''admin'')
      then (Redirect (url_for EP_dashboard), flash ''Admin access required.'' ''error'' w)
      else f w)"

section \<open>Credential store\<close>

text \<open>
  \<^verbatim>\<open>generate_password_hash\<close> and \<^verbatim>\<open>check_password_hash\<close> come from werkzeug, not from
  this repository, so every view that calls one takes it as a parameter. Hashing
  draws a random salt; the salt drawn by a call is an explicit argument.
\<close>

type_synonym hasher = "string \<Rightarrow> string \<Rightarrow> string"
type_synonym verifier = "string \<Rightarrow> string \<Rightarrow> bool"

datatype db_error = IntegrityError string

text \<open>\<^verbatim>\<open>SELECT ... FROM users WHERE username = ?\<close> followed by \<^verbatim>\<open>fetchone()\<close>.\<close>

definition select_user_by_username :: "database \<Rightarrow> string \<Rightarrow> user option" where
  "select_user_by_username d username = find (\<lambda>u. u_username u = username) (users d)"

text \<open>\<^verbatim>\<open>SELECT ... FROM users WHERE id=?\<close> followed by \<^verbatim>\<open>fetchone()\<close>.\<close>

definition select_user_by_id :: "database \<Rightarrow> int \<Rightarrow> user option" where
  "select_user_by_id d ident = find (\<lambda>u. u_id u = ident) (users d)"

text \<open>
  \<^verbatim>\<open>INSERT INTO users (username, password_hash, role, full_name, email)\<close>: the UNIQUE
  constraint on \<^verbatim>\<open>username\<close> raises \<^verbatim>\<open>IntegrityError\<close> and the statement changes nothing;
  otherwise the row gets the next AUTOINCREMENT id and the current timestamp.
\<close>

definition insert_user ::
  "string \<Rightarrow> string \<Rightarrow> string \<Rightarrow> string \<Rightarrow> string \<Rightarrow> string \<Rightarrow> database
   \<Rightarrow> db_error + database" where
  "insert_user now username password_hash role full_name email d =
     (if \<exists>u \<in> set (users d). u_username u = username
      then Inl (IntegrityError ''UNIQUE constraint failed: users.username'')
      else
        (let new_id = fold max (map u_id (users d)) (users_seq d) + 1 in
         Inr (d\<lparr>users := users d @
                  [\<lparr>u_id = new_id, u_username = username, u_password_hash = password_hash,
                    u_role = role, u_full_name = full_name, u_email = email,
                    u_created_at = now\<rparr>],
                users_seq := new_id\<rparr>)))"

text \<open>
  The two \<^verbatim>\<open>UPDATE users SET ... WHERE id=?\<close> statements of \<^verbatim>\<open>edit_user\<close>. Either one
  raises \<^verbatim>\<open>IntegrityError\<close> when it would give the row a username that another row
  holds; a statement that matches no row changes nothing and raises nothing.
\<close>

definition username_taken_by_other :: "database \<Rightarrow> int \<Rightarrow> string \<Rightarrow> bool" where
  "username_taken_by_other d ident username =
     ((\<exists>u \<in> set (users d). u_id u = ident)
      \<and> (\<exists>v \<in> set (users d). u_id v \<noteq> ident \<and> u_username v = username))"

definition update_user_with_password ::
  "string \<Rightarrow> string \<Rightarrow> string \<Rightarrow> string \<Rightarrow> string \<Rightarrow> int \<Rightarrow> database
   \<Rightarrow> db_error + database" where
  "update_user_with_password username password_hash role full_name email ident d =
     (if username_taken_by_other d ident username
      then Inl (IntegrityError ''UNIQUE constraint failed: users.username'')
      else Inr (d\<lparr>users :=
                  map (\<lambda>u. if u_id u = ident
                            then u\<lparr>u_username := username, u_password_hash := password_hash,
                                   u_role := role, u_full_name := full_name, u_email := email\<rparr>
                            else u) (users d)\<rparr>))"

definition update_user ::
  "string \<Rightarrow> string \<Rightarrow> string \<Rightarrow> string \<Rightarrow> int \<Rightarrow> database \<Rightarrow> db_error + database" where
  "update_user username role full_name email ident d =
     (if username_taken_by_other d ident username
      then Inl (IntegrityError ''UNIQUE constraint failed: users.username'')
      else Inr (d\<lparr>users :=
                  map (\<lambda>u. if u_id u = ident
                            then u\<lparr>u_username := username, u_role := role,
                                   u_full_name := full_name, u_email := email\<rparr>
                            else u) (users d)\<rparr>))"

section \<open>Login\<close>

definition login ::
  "verifier \<Rightarrow> request_method \<Rightarrow> form \<Rightarrow> world \<Rightarrow> unit response \<times> world" where
  "login check_password_hash method frm w =
     (if method = POST then
        (case frm ''username'' of
           None \<Rightarrow> (Abort 400, w)
         | Some username \<Rightarrow>
        (case frm ''password'' of
           None \<Rightarrow> (Abort 400, w)
         | Some password \<Rightarrow>
        (case select_user_by_username (db w) username of
           Some user \<Rightarrow>
             if check_password_hash (u_password_hash user) password
             then (Redirect (url_for EP_dashboard),
                   flash ''Login successful!'' ''success''
                     (w\<lparr>session := (session w)
                          (''user_id'' \<mapsto> IntV (u_id user),
                           ''username'' \<mapsto> TextV (u_username user),
                           ''user_role'' \<mapsto> TextV (u_role user),
                           ''full_name'' \<mapsto> TextV (u_full_name user))\<rparr>))
             else (Render ''login.html'' (),
                   flash ''Invalid username or password.'' ''error'' w)
         | None \<Rightarrow>
             (Render ''login.html'' (),
              flash ''Invalid username or password.'' ''error'' w))))
      else (Render ''login.html'' (), w))"

section \<open>User management views\<close>

definition add_user_view ::
  "hasher \<Rightarrow> string \<Rightarrow> string \<Rightarrow> request_method \<Rightarrow> form \<Rightarrow> world
   \<Rightarrow> unit response \<times> world" where
  "add_user_view generate_password_hash salt now method frm w =
     (if method = POST then
        (case (frm ''username'', frm ''password'', frm ''role'', frm ''full_name'',
               frm ''email'') of
           (Some username, Some password, Some role, Some full_name, Some email) \<Rightarrow>
             (let password_hash = generate_password_hash salt password in
              case insert_user now username password_hash role full_name email (db w) of
                Inr d' \<Rightarrow>
                  (Redirect (url_for EP_view_users),
                   flash ''User created successfully!'' ''success'' (w\<lparr>db := d'\<rparr>))
              | Inl e \<Rightarrow>
                  (Render ''add_user.html'' (),
                   flash ''Username already exists!'' ''error'' w))
         | _ \<Rightarrow> (Abort 400, w))
      else (Render ''add_user.html'' (), w))"

definition add_user ::
  "hasher \<Rightarrow> string \<Rightarrow> string \<Rightarrow> request_method \<Rightarrow> form \<Rightarrow> world
   \<Rightarrow> unit response \<times> world" where
  "add_user generate_password_hash salt now method frm =
     admin_required (add_user_view generate_password_hash salt now method frm)"

type_synonym user_row = "int \<times> string \<times> string \<times> string \<times> string"

text \<open>The tail of \<^verbatim>\<open>edit_user\<close>: select the row, report a missing one, else show the form.\<close>

definition edit_user_form :: "int \<Rightarrow> world \<Rightarrow> user_row response \<times> world" where
  "edit_user_form ident w =
     (case select_user_by_id (db w) ident of
        None \<Rightarrow> (Redirect (url_for EP_view_users), flash ''User not found!'' ''error'' w)
      | Some user \<Rightarrow>
          (Render ''edit_user.html''
             (u_id user, u_username user, u_role user, u_full_name user, u_email user), w))"

text \<open>
  \<^verbatim>\<open>password = request.form.get('password')\<close> may be absent, and \<^verbatim>\<open>if password:\<close> treats
  the empty string like an absent one.
\<close>

definition edit_user_view ::
  "hasher \<Rightarrow> string \<Rightarrow> int \<Rightarrow> request_method \<Rightarrow> form \<Rightarrow> world
   \<Rightarrow> user_row response \<times> world" where
  "edit_user_view generate_password_hash salt ident method frm w =
     (if method = POST then
        (case (frm ''username'', frm ''role'', frm ''full_name'', frm ''email'') of
           (Some username, Some role, Some full_name, Some email) \<Rightarrow>
             (let outcome =
                    (case frm ''password'' of
                       Some password \<Rightarrow>
                         if password \<noteq> []
                         then update_user_with_password username
                                (generate_password_hash salt password)
                                role full_name email ident (db w)
                         else update_user username role full_name email ident (db w)
                     | None \<Rightarrow> update_user username role full_name email ident (db w))
              in case outcome of
                   Inr d' \<Rightarrow>
                     (Redirect (url_for EP_view_users),
                      flash ''User updated successfully!'' ''success'' (w\<lparr>db := d'\<rparr>))
                 | Inl (IntegrityError e) \<Rightarrow>
                     edit_user_form ident
                       (flash (''Error updating user: '' @ e) ''error'' w))
         | _ \<Rightarrow> (Abort 400, w))
      else edit_user_form ident w)"

definition edit_user ::
  "hasher \<Rightarrow> string \<Rightarrow> int \<Rightarrow> request_method \<Rightarrow> form \<Rightarrow> world
   \<Rightarrow> user_row response \<times> world" where
  "edit_user generate_password_hash salt ident method frm =
     admin_required (edit_user_view generate_password_hash salt ident method frm)"

section \<open>Queries\<close>

text \<open>
  \<^verbatim>\<open>ORDER BY\<close>: the rows are arranged so that \<open>before x y\<close> holds for every row \<open>x\<close>
  listed ahead of a row \<open>y\<close>. The engine does not promise how ties are broken; the
  insertion sort below keeps them in table order, and the theorems about listings do
  not depend on that choice.
\<close>

fun insert_by :: "('a \<Rightarrow> 'a \<Rightarrow> bool) \<Rightarrow> 'a \<Rightarrow> 'a list \<Rightarrow> 'a list" where
  "insert_by before x [] = [x]"
| "insert_by before x (y # ys) =
     (if before x y then x # y # ys else y # insert_by before x ys)"

definition order_by :: "('a \<Rightarrow> 'a \<Rightarrow> bool) \<Rightarrow> 'a list \<Rightarrow> 'a list" where
  "order_by before rows = foldr (insert_by before) rows []"

text \<open>
  The \<^verbatim>\<open>LIKE\<close> operator as the engine evaluates it with default settings. A pattern
  longer than 50000 bytes is refused with the error "LIKE or GLOB pattern too complex".
  Otherwise pattern and text are read as C strings, up to their first NUL character,
  and compared: \<^verbatim>\<open>%\<close> in the pattern matches any run of characters, \<^verbatim>\<open>_\<close> matches any
  one character, every other pattern character matches itself or its other ASCII case.
  \<^verbatim>\<open>ascii_lower\<close> folds the letters A to Z by setting bit 5 (adding 32) and leaves every
  other character alone. \<^verbatim>\<open>utf8_length\<close> is the length in bytes of a text whose
  characters are below 256: one byte below 128, two bytes from there on.
\<close>

definition ascii_lower :: "char \<Rightarrow> char" where
  "ascii_lower c =
     (if CHR ''A'' \<le> c \<and> c \<le> CHR ''Z''
      then Char (digit0 c) (digit1 c) (digit2 c) (digit3 c) (digit4 c) True (digit6 c) (digit7 c)
      else c)"

fun like_match :: "string \<Rightarrow> string \<Rightarrow> bool" where
  "like_match [] s = (s = [])"
| "like_match (p # ps) [] = (p = CHR ''%'' \<and> like_match ps [])"
| "like_match (p # ps) (c # cs) =
     (if p = CHR ''%'' then like_match ps (c # cs) \<or> like_match (p # ps) cs
      else (p = CHR ''_'' \<or> ascii_lower p = ascii_lower c) \<and> like_match ps cs)"

definition utf8_length :: "string \<Rightarrow> nat" where
  "utf8_length s = sum_list (map (\<lambda>c. if c < CHR 0x80 then 1 else 2) s)"

definition c_string :: "string \<Rightarrow> string" where
  "c_string s = takeWhile (\<lambda>c. c \<noteq> CHR 0x00) s"

definition sql_like :: "string \<Rightarrow> string \<Rightarrow> bool option" where
  "sql_like pattern s =
     (if 50000 < utf8_length pattern then None
      else Some (like_match (c_string pattern) (c_string s)))"

text \<open>
  \<^verbatim>\<open>a OR b\<close> in a \<^verbatim>\<open>WHERE\<close> clause, and the \<^verbatim>\<open>WHERE\<close> clause itself: the rows for
  which the condition holds, in table order, unless the condition raises an error on
  some row, which ends the statement with \<^verbatim>\<open>sqlite3.OperationalError\<close> (\<^term>\<open>None\<close>).
\<close>

definition sql_or :: "bool option \<Rightarrow> bool option \<Rightarrow> bool option" where
  "sql_or a b = (case a of None \<Rightarrow> None | Some True \<Rightarrow> Some True | Some False \<Rightarrow> b)"

fun select_where :: "('a \<Rightarrow> bool option) \<Rightarrow> 'a list \<Rightarrow> 'a list option" where
  "select_where cond [] = Some []"
| "select_where cond (r # rs) =
     (case cond r of
        None \<Rightarrow> None
      | Some keep \<Rightarrow>
          (case select_where cond rs of
             None \<Rightarrow> None
           | Some kept \<Rightarrow> Some (if keep then r # kept else kept)))"

text \<open>
  An integer bound to a \<^verbatim>\<open>?\<close> must fit the engine's signed 64-bit INTEGER; binding a
  larger Python integer raises \<^verbatim>\<open>OverflowError\<close>.
\<close>

definition sqlite_int_ok :: "int \<Rightarrow> bool" where
  "sqlite_int_ok n = (- (2 ^ 63) \<le> n \<and> n < 2 ^ 63)"

text \<open>The sort keys of the three listings, on text compared by character code.\<close>

definition by_name :: "patient \<Rightarrow> patient \<Rightarrow> bool" where
  "by_name x y = (p_name x \<le> p_name y)"

definition by_date_desc_time_desc :: "appointment \<Rightarrow> appointment \<Rightarrow> bool" where
  "by_date_desc_time_desc x y =
     (a_date y < a_date x \<or> (a_date x = a_date y \<and> a_time y \<le> a_time x))"

definition by_visit_date_desc :: "medical_record \<Rightarrow> medical_record \<Rightarrow> bool" where
  "by_visit_date_desc x y = (mr_visit_date y \<le> mr_visit_date x)"

section \<open>Patient, appointment and medical record views\<close>

text \<open>
  None of the four views below wraps its queries in a \<^verbatim>\<open>try\<close>: an exception raised by
  \<^verbatim>\<open>cursor.execute\<close> ends the request with status 500, with nothing flashed and nothing
  written.
\<close>

text \<open>\<^verbatim>\<open>request.args.get(key, default)\<close>.\<close>

definition request_arg :: "form \<Rightarrow> string \<Rightarrow> string \<Rightarrow> string" where
  "request_arg args key dflt = (case args key of None \<Rightarrow> dflt | Some v \<Rightarrow> v)"

text \<open>The pattern \<^verbatim>\<open>f'%{search}%'\<close> that the listings bind to every \<^verbatim>\<open>LIKE ?\<close>.\<close>

definition search_pattern :: "string \<Rightarrow> string" where
  "search_pattern search = ''%'' @ search @ ''%''"

definition view_patients_view ::
  "form \<Rightarrow> world \<Rightarrow> (patient list \<times> string) response \<times> world" where
  "view_patients_view args w =
     (let search = request_arg args ''search'' [] in
      if search \<noteq> []
      then (case select_where
                   (\<lambda>p. sql_or (sql_like (search_pattern search) (p_name p))
                               (sql_like (search_pattern search) (p_phone p)))
                   (patients (db w)) of
              None \<Rightarrow> (Abort 500, w)
            | Some hits \<Rightarrow>
                (Render ''view_patients.html'' (order_by by_name hits, search), w))
      else (Render ''view_patients.html'' (order_by by_name (patients (db w)), search), w))"

definition view_patients ::
  "form \<Rightarrow> world \<Rightarrow> (patient list \<times> string) response \<times> world" where
  "view_patients args = login_required (view_patients_view args)"

definition view_appointments_view ::
  "form \<Rightarrow> world \<Rightarrow> (appointment list \<times> string) response \<times> world" where
  "view_appointments_view args w =
     (let search = request_arg args ''search'' [] in
      if search \<noteq> []
      then (case select_where
                   (\<lambda>a. sql_or (sql_like (search_pattern search) (a_patient_name a))
                               (sql_like (search_pattern search) (a_doctor_name a)))
                   (appointments (db w)) of
              None \<Rightarrow> (Abort 500, w)
            | Some hits \<Rightarrow>
                (Render ''view_appointments.html''
                   (order_by by_date_desc_time_desc hits, search), w))
      else (Render ''view_appointments.html''
              (order_by by_date_desc_time_desc (appointments (db w)), search), w))"

definition view_appointments ::
  "form \<Rightarrow> world \<Rightarrow> (appointment list \<times> string) response \<times> world" where
  "view_appointments args = login_required (view_appointments_view args)"

definition patient_history_view ::
  "int \<Rightarrow> world \<Rightarrow> (patient \<times> medical_record list) response \<times> world" where
  "patient_history_view patient_id w =
     (if \<not> sqlite_int_ok patient_id then (Abort 500, w)
      else
        (let patient = find (\<lambda>p. p_id p = patient_id) (patients (db w));
             records = order_by by_visit_date_desc
                         (filter (\<lambda>r. mr_patient_id r = Some patient_id)
                            (medical_records (db w)))
         in case patient of
              None \<Rightarrow> (Redirect (url_for EP_view_patients),
                       flash ''Patient not found!'' ''error'' w)
            | Some p \<Rightarrow> (Render ''patient_history.html'' (p, records), w)))"

definition patient_history ::
  "int \<Rightarrow> world \<Rightarrow> (patient \<times> medical_record list) response \<times> world" where
  "patient_history patient_id = login_required (patient_history_view patient_id)"

text \<open>
  \<^verbatim>\<open>SELECT mr.*, p.name FROM medical_records mr JOIN patients p ON mr.patient_id = p.id
  WHERE mr.id=?\<close>: the rows of the inner join, each a record with its patient's name.
\<close>

definition select_record_with_patient ::
  "database \<Rightarrow> int \<Rightarrow> (medical_record \<times> string) list" where
  "select_record_with_patient d ident =
     [(mr, p_name p). mr \<leftarrow> medical_records d, p \<leftarrow> patients d,
                      mr_patient_id mr = Some (p_id p), mr_id mr = ident]"

definition view_medical_record_view ::
  "int \<Rightarrow> world \<Rightarrow> (medical_record \<times> string) response \<times> world" where
  "view_medical_record_view ident w =
     (if \<not> sqlite_int_ok ident then (Abort 500, w)
      else
        (case select_record_with_patient (db w) ident of
           [] \<Rightarrow> (Redirect (url_for EP_view_medical_records),
                  flash ''Medical record not found!'' ''error'' w)
         | record # _ \<Rightarrow> (Render ''view_medical_record.html'' record, w)))"

definition view_medical_record ::
  "int \<Rightarrow> world \<Rightarrow> (medical_record \<times> string) response \<times> world" where
  "view_medical_record ident = login_required (view_medical_record_view ident)"


section \<open>Example data\<close>

text \<open>
  A small clinic on which the views are run: the seeded administrator and one doctor,
  three patients (the patient with id 3 has been deleted), three appointments and four
  medical records, one of them pointing at the deleted patient. \<^verbatim>\<open>tagged_hash\<close> and
  \<^verbatim>\<open>tagged_check\<close> stand in for the two werkzeug functions on this data only.
\<close>

definition doctor_session :: "string \<rightharpoonup> sval" where
  "doctor_session =
     [''user_id'' \<mapsto> IntV 2, ''username'' \<mapsto> TextV ''drho'',
      ''user_role'' \<mapsto> TextV ''doctor'', ''full_name'' \<mapsto> TextV ''Dr. Ho'']"

definition empty_db :: database where
  "empty_db = \<lparr>users = [], users_seq = 0, patients = [], appointments = [],
               medical_records = []\<rparr>"

definition doctor_world :: world where
  "doctor_world = \<lparr>session = doctor_session, flashed = [], db = empty_db\<rparr>"

definition anonymous_world :: world where
  "anonymous_world = \<lparr>session = Map.empty, flashed = [], db = empty_db\<rparr>"

definition probe_view :: "world \<Rightarrow> unit response \<times> world" where
  "probe_view w = (Render ''probe.html'' (), flash ''ran'' ''info'' w)"

definition tagged_hash :: hasher where
  "tagged_hash salt password = salt @ CHR ''$'' # rev password"

definition tagged_check :: verifier where
  "tagged_check pwhash password =
     (dropWhile (\<lambda>c. c \<noteq> CHR ''$'') pwhash = CHR ''$'' # rev password)"

definition user_admin :: user where
  "user_admin = \<lparr>u_id = 1, u_username = ''admin'',
                 u_password_hash = tagged_hash ''k3'' ''admin123'', u_role = ''admin'',
                 u_full_name = ''System Administrator'', u_email = ''admin@hospital.com'',
                 u_created_at = ''2024-01-01 00:00:00''\<rparr>"

definition user_drho :: user where
  "user_drho = \<lparr>u_id = 2, u_username = ''drho'',
                 u_password_hash = tagged_hash ''q7'' ''stetho'', u_role = ''doctor'',
                 u_full_name = ''Dr. Ho'', u_email = ''ho@hospital.com'',
                 u_created_at = ''2024-01-05 10:00:00''\<rparr>"

definition seeded_db :: database where
  "seeded_db = \<lparr>users = [user_admin], users_seq = 1, patients = [], appointments = [],
                medical_records = []\<rparr>"

definition seeded_world :: world where
  "seeded_world = \<lparr>session = Map.empty, flashed = [], db = seeded_db\<rparr>"

definition admin_session :: "string \<rightharpoonup> sval" where
  "admin_session =
     [''user_id'' \<mapsto> IntV 1, ''username'' \<mapsto> TextV ''admin'',
      ''user_role'' \<mapsto> TextV ''admin'', ''full_name'' \<mapsto> TextV ''System Administrator'']"

definition pat_alice :: patient where
  "pat_alice = \<lparr>p_id = 1, p_name = ''Alice Moreau'', p_age = IntV 34, p_gender = ''Female'',
                p_address = ''12 Elm St'', p_phone = ''555-0101''\<rparr>"
definition pat_zed :: patient where
  "pat_zed = \<lparr>p_id = 2, p_name = ''Zed ALI'', p_age = IntV 61, p_gender = ''Male'',
                p_address = ''3 Oak Ave'', p_phone = ''555-0142''\<rparr>"
definition pat_bob :: patient where
  "pat_bob = \<lparr>p_id = 4, p_name = ''bob Stone'', p_age = TextV ''n/a'', p_gender = ''Male'',
                p_address = ''9 Pine Rd'', p_phone = ''555-0199''\<rparr>"

definition appt1 :: appointment where
  "appt1 = \<lparr>a_id = 1, a_patient_name = ''Alice Moreau'', a_doctor_name = ''Dr. Ho'',
            a_date = ''2024-01-01'', a_time = ''09:00''\<rparr>"
definition appt2 :: appointment where
  "appt2 = \<lparr>a_id = 2, a_patient_name = ''Zed ALI'', a_doctor_name = ''Dr. Smith'',
            a_date = ''2024-01-02'', a_time = ''08:30''\<rparr>"
definition appt3 :: appointment where
  "appt3 = \<lparr>a_id = 3, a_patient_name = ''bob Stone'', a_doctor_name = ''Dr. Ho'',
            a_date = ''2024-01-02'', a_time = ''14:15''\<rparr>"

definition rec1 :: medical_record where
  "rec1 = \<lparr>mr_id = 1, mr_patient_id = Some 1, mr_doctor_name = ''Dr. Ho'',
           mr_diagnosis = ''Flu'', mr_treatment = ''Rest'', mr_prescription = ''None'',
           mr_notes = ''first visit'', mr_visit_date = ''2024-02-10'',
           mr_created_at = ''2024-02-10 11:00:00''\<rparr>"

definition rec2 :: medical_record where
  "rec2 = \<lparr>mr_id = 2, mr_patient_id = Some 3, mr_doctor_name = ''Dr. Smith'',
           mr_diagnosis = ''Sprain'', mr_treatment = ''Bandage'', mr_prescription = ''None'',
           mr_notes = ''patient since deleted'', mr_visit_date = ''2024-02-20'',
           mr_created_at = ''2024-02-20 09:30:00''\<rparr>"

definition rec3 :: medical_record where
  "rec3 = \<lparr>mr_id = 3, mr_patient_id = Some 1, mr_doctor_name = ''Dr. Smith'',
           mr_diagnosis = ''Checkup'', mr_treatment = ''None'', mr_prescription = ''Vitamin D'',
           mr_notes = ''follow-up'', mr_visit_date = ''2024-03-05'',
           mr_created_at = ''2024-03-05 15:45:00''\<rparr>"

definition rec4 :: medical_record where
  "rec4 = \<lparr>mr_id = 4, mr_patient_id = None, mr_doctor_name = ''Dr. Ho'',
           mr_diagnosis = ''Cough'', mr_treatment = ''Syrup'', mr_prescription = ''None'',
           mr_notes = ''patient field not a number'', mr_visit_date = ''2024-03-09'',
           mr_created_at = ''2024-03-09 10:10:00''\<rparr>"

definition clinic_db :: database where
  "clinic_db = \<lparr>users = [user_admin, user_drho], users_seq = 2,
     patients = [pat_alice, pat_zed, pat_bob], appointments = [appt1, appt2, appt3],
     medical_records = [rec1, rec2, rec3, rec4]\<rparr>"

definition admin_world :: world where
  "admin_world = \<lparr>session = admin_session, flashed = [], db = clinic_db\<rparr>"

definition doctor_clinic_world :: world where
  "doctor_clinic_world = \<lparr>session = doctor_session, flashed = [], db = clinic_db\<rparr>"

definition form_new_nurse :: form where
  "form_new_nurse = [''username'' \<mapsto> ''nina'', ''password'' \<mapsto> ''pa55'',
     ''role'' \<mapsto> ''receptionist'', ''full_name'' \<mapsto> ''Nina Roy'',
     ''email'' \<mapsto> ''nina@hospital.com'']"

definition form_dup_drho :: form where
  "form_dup_drho = [''username'' \<mapsto> ''drho'', ''password'' \<mapsto> ''pa55'',
     ''role'' \<mapsto> ''receptionist'', ''full_name'' \<mapsto> ''Nina Roy'',
     ''email'' \<mapsto> ''nina@hospital.com'']"

definition form_rename_drho :: form where
  "form_rename_drho = [''username'' \<mapsto> ''dr.ho'', ''role'' \<mapsto> ''doctor'',
     ''full_name'' \<mapsto> ''Dr. Ho MD'', ''email'' \<mapsto> ''ho@clinic.org'']"

definition form_take_admin :: form where
  "form_take_admin = [''username'' \<mapsto> ''admin'', ''role'' \<mapsto> ''doctor'',
     ''full_name'' \<mapsto> ''Dr. Ho MD'', ''email'' \<mapsto> ''ho@clinic.org'']"




lemmas clinic_defs = admin_world_def admin_session_def clinic_db_def user_admin_def
  user_drho_def tagged_hash_def tagged_check_def

section \<open>The admin gate\<close>

text \<open>
  C2. A request whose session holds a user id but whose role is not admin is answered
  by \<^verbatim>\<open>admin_required\<close> with a redirect to the dashboard and the notice
  "Admin access required."; the wrapped view does not run (the outcome is the same
  world plus that one notice, whatever the view is); and the dashboard URL differs from
  the login URL to which \<^verbatim>\<open>login_required\<close> sends a request without a session.
\<close>

theorem admin_required_non_admin_to_dashboard:
  assumes "''user_id'' \<in> dom (session w)"
    and "session w ''user_role'' \<noteq> Some (TextV ''admin'')"
    and "''user_id'' \<notin> dom (session w0)"
  shows "admin_required f w =
           (Redirect ''/dashboard'',
            w\<lparr>flashed := flashed w @ [(''Admin access required.'', ''error'')]\<rparr>)
         \<and> admin_required f w = admin_required g w
         \<and> fst (login_required h w0) = Redirect ''/login''
         \<and> fst (admin_required f w) \<noteq> fst (login_required h w0)"
  using assms by (simp add: admin_required_def login_required_def flash_def)

theorem admin_required_non_admin_to_dashboard_witness:
  "''user_id'' \<in> dom (session doctor_world)
   \<and> session doctor_world ''user_role'' \<noteq> Some (TextV ''admin'')
   \<and> ''user_id'' \<notin> dom (session anonymous_world)
   \<and> admin_required probe_view doctor_world =
        (Redirect ''/dashboard'',
         doctor_world\<lparr>flashed := [(''Admin access required.'', ''error'')]\<rparr>)
   \<and> fst (login_required probe_view anonymous_world) = Redirect ''/login''"
  using admin_required_non_admin_to_dashboard
          [of doctor_world anonymous_world probe_view probe_view probe_view]
  by (simp add: doctor_world_def anonymous_world_def doctor_session_def)

text \<open>
  C9. A request with no session at all is answered by \<^verbatim>\<open>admin_required\<close> exactly as
  \<^verbatim>\<open>login_required\<close> answers it: a redirect to the login page with the notice
  "Please log in to access this page.", before any look at the role, and without
  running the wrapped view.
\<close>

theorem admin_required_no_session_to_login:
  assumes "''user_id'' \<notin> dom (session w)"
  shows "admin_required f w =
           (Redirect ''/login'',
            w\<lparr>flashed := flashed w @ [(''Please log in to access this page.'', ''error'')]\<rparr>)
         \<and> admin_required f w = login_required f w
         \<and> fst (admin_required f w) \<noteq> Redirect ''/dashboard''"
  using assms by (simp add: admin_required_def login_required_def flash_def)

theorem admin_required_no_session_to_login_witness:
  "''user_id'' \<notin> dom (session anonymous_world)
   \<and> admin_required probe_view anonymous_world =
        (Redirect ''/login'',
         anonymous_world\<lparr>flashed := [(''Please log in to access this page.'', ''error'')]\<rparr>)"
  using admin_required_no_session_to_login [of anonymous_world probe_view]
  by (simp add: anonymous_world_def)

section \<open>Logging in\<close>

lemma find_unique_key:
  "distinct (map f xs) \<Longrightarrow> x \<in> set xs \<Longrightarrow> find (\<lambda>y. f y = f x) xs = Some x"
  by (induction xs) (auto simp: image_iff)

lemma find_absent_key:
  "\<forall>y \<in> set xs. f y \<noteq> k \<Longrightarrow> find (\<lambda>y. f y = k) xs = None"
  by (simp add: find_None_iff)

text \<open>
  C1. With usernames unique in the users table (the UNIQUE constraint), a login POST
  carrying \<open>username\<close> and \<open>password\<close> fails, with the notice "Invalid username or
  password." and the session untouched, when no row has exactly that username or when
  the password does not verify against the stored hash of the row that has it; when the
  row exists and the password verifies, the login succeeds and the session holds that
  row's id, username, role and full name under the keys \<^verbatim>\<open>user_id\<close>, \<^verbatim>\<open>username\<close>,
  \<^verbatim>\<open>user_role\<close> and \<^verbatim>\<open>full_name\<close>.
\<close>

theorem login_authenticates:
  assumes "frm ''username'' = Some username" and "frm ''password'' = Some password"
    and "distinct (map u_username (users (db w)))"
  shows "((\<forall>u \<in> set (users (db w)). u_username u \<noteq> username) \<longrightarrow>
            login check_password_hash POST frm w =
              (Render ''login.html'' (),
               w\<lparr>flashed := flashed w @ [(''Invalid username or password.'', ''error'')]\<rparr>))
       \<and> (\<forall>u \<in> set (users (db w)). u_username u = username \<longrightarrow>
            (\<not> check_password_hash (u_password_hash u) password \<longrightarrow>
               login check_password_hash POST frm w =
                 (Render ''login.html'' (),
                  w\<lparr>flashed := flashed w @ [(''Invalid username or password.'', ''error'')]\<rparr>))
          \<and> (check_password_hash (u_password_hash u) password \<longrightarrow>
               login check_password_hash POST frm w =
                 (Redirect ''/dashboard'',
                  w\<lparr>session := (session w)
                       (''user_id'' \<mapsto> IntV (u_id u), ''username'' \<mapsto> TextV (u_username u),
                        ''user_role'' \<mapsto> TextV (u_role u),
                        ''full_name'' \<mapsto> TextV (u_full_name u)),
                     flashed := flashed w @ [(''Login successful!'', ''success'')]\<rparr>)))"
proof (intro conjI impI ballI)
  assume "\<forall>u \<in> set (users (db w)). u_username u \<noteq> username"
  then have "select_user_by_username (db w) username = None"
    unfolding select_user_by_username_def by (rule find_absent_key)
  then show "login check_password_hash POST frm w =
      (Render ''login.html'' (),
       w\<lparr>flashed := flashed w @ [(''Invalid username or password.'', ''error'')]\<rparr>)"
    using assms by (simp add: login_def flash_def)
next
  fix u assume u: "u \<in> set (users (db w))" "u_username u = username"
  have sel: "select_user_by_username (db w) username = Some u"
    unfolding select_user_by_username_def
    using find_unique_key [OF assms(3) u(1)] u(2) by simp
  { assume "\<not> check_password_hash (u_password_hash u) password"
    then show "login check_password_hash POST frm w =
      (Render ''login.html'' (),
       w\<lparr>flashed := flashed w @ [(''Invalid username or password.'', ''error'')]\<rparr>)"
      using assms sel by (simp add: login_def flash_def) }
  { assume "check_password_hash (u_password_hash u) password"
    then show "login check_password_hash POST frm w =
                 (Redirect ''/dashboard'',
                  w\<lparr>session := (session w)
                       (''user_id'' \<mapsto> IntV (u_id u), ''username'' \<mapsto> TextV (u_username u),
                        ''user_role'' \<mapsto> TextV (u_role u),
                        ''full_name'' \<mapsto> TextV (u_full_name u)),
                     flashed := flashed w @ [(''Login successful!'', ''success'')]\<rparr>)"
      using assms sel by (simp add: login_def flash_def) }
qed

theorem login_authenticates_witness:
  "login tagged_check POST [''username'' \<mapsto> ''admin'', ''password'' \<mapsto> ''admin123''] seeded_world =
     (Redirect ''/dashboard'',
      seeded_world\<lparr>session := [''user_id'' \<mapsto> IntV 1, ''username'' \<mapsto> TextV ''admin'',
                      ''user_role'' \<mapsto> TextV ''admin'',
                      ''full_name'' \<mapsto> TextV ''System Administrator''],
                   flashed := [(''Login successful!'', ''success'')]\<rparr>)
   \<and> login tagged_check POST [''username'' \<mapsto> ''admin'', ''password'' \<mapsto> ''letmein''] seeded_world =
     (Render ''login.html'' (),
      seeded_world\<lparr>flashed := [(''Invalid username or password.'', ''error'')]\<rparr>)
   \<and> login tagged_check POST [''username'' \<mapsto> ''Admin'', ''password'' \<mapsto> ''admin123''] seeded_world =
     (Render ''login.html'' (),
      seeded_world\<lparr>flashed := [(''Invalid username or password.'', ''error'')]\<rparr>)"
  using login_authenticates
          [of "[''username'' \<mapsto> ''admin'', ''password'' \<mapsto> ''admin123'']" "''admin''"
              "''admin123''" seeded_world tagged_check]
        login_authenticates
          [of "[''username'' \<mapsto> ''admin'', ''password'' \<mapsto> ''letmein'']" "''admin''"
              "''letmein''" seeded_world tagged_check]
        login_authenticates
          [of "[''username'' \<mapsto> ''Admin'', ''password'' \<mapsto> ''admin123'']" "''Admin''"
              "''admin123''" seeded_world tagged_check]
  by (simp add: seeded_world_def seeded_db_def user_admin_def tagged_check_def tagged_hash_def)

section \<open>Creating a user\<close>

lemma fold_max_ge: "(a::int) \<le> fold max xs a"
  by (induction xs arbitrary: a) (auto intro: order_trans [OF max.cobounded2])

lemma fold_max_bound: "x \<in> set xs \<Longrightarrow> (x::int) \<le> fold max xs a"
proof (induction xs arbitrary: a)
  case Nil then show ?case by simp
next
  case (Cons y ys)
  show ?case
  proof (cases "x = y")
    case True
    have "max y a \<le> fold max ys (max y a)" by (rule fold_max_ge)
    with True show ?thesis by simp
  next
    case False with Cons show ?thesis by simp
  qed
qed

lemma next_id_fresh: "fold max (map u_id us) s + 1 \<notin> u_id ` set us"
proof
  assume "fold max (map u_id us) s + 1 \<in> u_id ` set us"
  then have "fold max (map u_id us) s + 1 \<in> set (map u_id us)" by simp
  from fold_max_bound [OF this, of s] show False by simp
qed

text \<open>
  C3. An admin's add-user POST whose username is already in the users table fails with
  the notice "Username already exists!" and leaves the database exactly as it was; a
  POST whose username is fresh appends one row, under an id no other row has, whose
  stored credential is the output of \<^verbatim>\<open>generate_password_hash\<close> on the supplied
  password (the password itself is not what is written to the column).
\<close>

theorem add_user_conflict_or_hashed:
  assumes "''user_id'' \<in> dom (session w)"
    and "session w ''user_role'' = Some (TextV ''admin'')"
    and "frm ''username'' = Some username" and "frm ''password'' = Some password"
    and "frm ''role'' = Some role" and "frm ''full_name'' = Some full_name"
    and "frm ''email'' = Some email"
  shows "((\<exists>u \<in> set (users (db w)). u_username u = username) \<longrightarrow>
            add_user generate_password_hash salt now POST frm w =
              (Render ''add_user.html'' (),
               w\<lparr>flashed := flashed w @ [(''Username already exists!'', ''error'')]\<rparr>)
          \<and> db (snd (add_user generate_password_hash salt now POST frm w)) = db w)
       \<and> ((\<forall>u \<in> set (users (db w)). u_username u \<noteq> username) \<longrightarrow>
            (\<exists>new_id. new_id \<notin> u_id ` set (users (db w))
               \<and> add_user generate_password_hash salt now POST frm w =
                   (Redirect ''/users'',
                    w\<lparr>db := (db w)
                         \<lparr>users := users (db w) @
                            [\<lparr>u_id = new_id, u_username = username,
                              u_password_hash = generate_password_hash salt password,
                              u_role = role, u_full_name = full_name, u_email = email,
                              u_created_at = now\<rparr>],
                          users_seq := new_id\<rparr>,
                       flashed := flashed w @ [(''User created successfully!'', ''success'')]\<rparr>)))"
proof (intro conjI impI)
  assume dup: "\<exists>u \<in> set (users (db w)). u_username u = username"
  then show "add_user generate_password_hash salt now POST frm w =
              (Render ''add_user.html'' (),
               w\<lparr>flashed := flashed w @ [(''Username already exists!'', ''error'')]\<rparr>)"
    using assms
    by (simp add: add_user_def admin_required_def add_user_view_def insert_user_def flash_def)
  then show "db (snd (add_user generate_password_hash salt now POST frm w)) = db w"
    by simp
next
  assume fresh: "\<forall>u \<in> set (users (db w)). u_username u \<noteq> username"
  let ?n = "fold max (map u_id (users (db w))) (users_seq (db w)) + 1"
  have "?n \<notin> u_id ` set (users (db w))" by (rule next_id_fresh)
  moreover have "add_user generate_password_hash salt now POST frm w =
                   (Redirect ''/users'',
                    w\<lparr>db := (db w)
                         \<lparr>users := users (db w) @
                            [\<lparr>u_id = ?n, u_username = username,
                              u_password_hash = generate_password_hash salt password,
                              u_role = role, u_full_name = full_name, u_email = email,
                              u_created_at = now\<rparr>],
                          users_seq := ?n\<rparr>,
                       flashed := flashed w @ [(''User created successfully!'', ''success'')]\<rparr>)"
    using assms fresh
    by (simp add: add_user_def admin_required_def add_user_view_def insert_user_def flash_def
        Let_def)
  ultimately show "\<exists>new_id. new_id \<notin> u_id ` set (users (db w))
               \<and> add_user generate_password_hash salt now POST frm w =
                   (Redirect ''/users'',
                    w\<lparr>db := (db w)
                         \<lparr>users := users (db w) @
                            [\<lparr>u_id = new_id, u_username = username,
                              u_password_hash = generate_password_hash salt password,
                              u_role = role, u_full_name = full_name, u_email = email,
                              u_created_at = now\<rparr>],
                          users_seq := new_id\<rparr>,
                       flashed := flashed w @ [(''User created successfully!'', ''success'')]\<rparr>)"
    by blast
qed

theorem add_user_conflict_or_hashed_witness:
  "db (snd (add_user tagged_hash ''z9'' ''2024-02-01 08:00:00'' POST form_dup_drho admin_world))
     = clinic_db
   \<and> fst (add_user tagged_hash ''z9'' ''2024-02-01 08:00:00'' POST form_dup_drho admin_world)
     = Render ''add_user.html'' ()
   \<and> map u_password_hash
       (users (db (snd (add_user tagged_hash ''z9'' ''2024-02-01 08:00:00'' POST
                          form_new_nurse admin_world))))
     = [''k3$321nimda'', ''q7$ohtets'', ''z9$55ap'']"
  using add_user_conflict_or_hashed
          [of admin_world form_dup_drho "''drho''" "''pa55''" "''receptionist''" "''Nina Roy''"
              "''nina@hospital.com''" tagged_hash "''z9''" "''2024-02-01 08:00:00''"]
        add_user_conflict_or_hashed
          [of admin_world form_new_nurse "''nina''" "''pa55''" "''receptionist''" "''Nina Roy''"
              "''nina@hospital.com''" tagged_hash "''z9''" "''2024-02-01 08:00:00''"]
  by (auto simp: admin_world_def admin_session_def clinic_db_def user_admin_def user_drho_def
        form_dup_drho_def form_new_nurse_def tagged_hash_def)

section \<open>Editing a user\<close>

lemma find_updated_row:
  assumes "distinct (map u_id us)" and "x \<in> set us" and "u_id (g x) = u_id x"
  shows "find (\<lambda>u. u_id u = u_id x) (map (\<lambda>u. if u_id u = u_id x then g u else u) us)
         = Some (g x)"
  using assms by (induction us) (auto simp: image_iff)

lemma find_updated_username:
  assumes "distinct (map u_id us)" and "x \<in> set us"
    and "\<forall>v \<in> set us. u_id v \<noteq> u_id x \<longrightarrow> u_username v \<noteq> n"
    and "u_username (g x) = n"
  shows "find (\<lambda>u. u_username u = n) (map (\<lambda>u. if u_id u = u_id x then g u else u) us)
         = Some (g x)"
  using assms by (induction us) (auto simp: image_iff)

lemma not_taken:
  assumes "\<forall>v \<in> set (users d). u_id v \<noteq> ident \<longrightarrow> u_username v \<noteq> username"
  shows "\<not> username_taken_by_other d ident username"
  using assms by (auto simp: username_taken_by_other_def)

lemma edit_user_keep_password:
  assumes "''user_id'' \<in> dom (session w)"
    and "session w ''user_role'' = Some (TextV ''admin'')"
    and "frm ''username'' = Some username" and "frm ''role'' = Some role"
    and "frm ''full_name'' = Some full_name" and "frm ''email'' = Some email"
    and "frm ''password'' = None \<or> frm ''password'' = Some []"
    and "\<not> username_taken_by_other (db w) ident username"
  shows "edit_user generate_password_hash salt ident POST frm w =
           (Redirect ''/users'',
            w\<lparr>db := (db w)\<lparr>users :=
                   map (\<lambda>u. if u_id u = ident
                             then u\<lparr>u_username := username, u_role := role,
                                    u_full_name := full_name, u_email := email\<rparr>
                             else u) (users (db w))\<rparr>,
               flashed := flashed w @ [(''User updated successfully!'', ''success'')]\<rparr>)"
  using assms
  by (auto simp: edit_user_def admin_required_def edit_user_view_def update_user_def flash_def)

lemma edit_user_new_password:
  assumes "''user_id'' \<in> dom (session w)"
    and "session w ''user_role'' = Some (TextV ''admin'')"
    and "frm ''username'' = Some username" and "frm ''role'' = Some role"
    and "frm ''full_name'' = Some full_name" and "frm ''email'' = Some email"
    and "frm ''password'' = Some new_password" and "new_password \<noteq> []"
    and "\<not> username_taken_by_other (db w) ident username"
  shows "edit_user generate_password_hash salt ident POST frm w =
           (Redirect ''/users'',
            w\<lparr>db := (db w)\<lparr>users :=
                   map (\<lambda>u. if u_id u = ident
                             then u\<lparr>u_username := username,
                                    u_password_hash := generate_password_hash salt new_password,
                                    u_role := role,
                                    u_full_name := full_name, u_email := email\<rparr>
                             else u) (users (db w))\<rparr>,
               flashed := flashed w @ [(''User updated successfully!'', ''success'')]\<rparr>)"
  using assms
  by (auto simp: edit_user_def admin_required_def edit_user_view_def
        update_user_with_password_def flash_def)

lemma edit_user_conflict:
  assumes "''user_id'' \<in> dom (session w)"
    and "session w ''user_role'' = Some (TextV ''admin'')"
    and "frm ''username'' = Some username" and "frm ''role'' = Some role"
    and "frm ''full_name'' = Some full_name" and "frm ''email'' = Some email"
    and "username_taken_by_other (db w) ident username"
  shows "edit_user generate_password_hash salt ident POST frm w =
           edit_user_form ident
             (w\<lparr>flashed := flashed w @
                  [(''Error updating user: UNIQUE constraint failed: users.username'',
                    ''error'')]\<rparr>)"
  using assms
  by (auto simp: edit_user_def admin_required_def edit_user_view_def
        update_user_with_password_def update_user_def flash_def split: option.splits)

lemma login_as:
  assumes "select_user_by_username (db w) username = Some u"
  shows "fst (login check_password_hash POST
                [''username'' \<mapsto> username, ''password'' \<mapsto> password] w)
         = (if check_password_hash (u_password_hash u) password
            then Redirect ''/dashboard'' else Render ''login.html'' ())"
  using assms by (simp add: login_def)

text \<open>
  C4, as amended. For an admin's edit-user POST on a row that exists (ids being
  unique): if no other row holds the new username, then without a password (absent or
  empty) the username, role, full name and email are replaced and the stored hash stays
  as it was, so a password that verified before still logs in, now under the new
  username; with a non-empty password the stored hash becomes the hash of that
  password, so the new password logs in if the new hash verifies it and an old password
  is refused if the new hash does not verify it; either way the notice is "User updated
  successfully!". If another row holds the new username the update is refused: the
  notice is "Error updating user: UNIQUE constraint failed: users.username", the form
  is shown again with the row as it was, and the world is otherwise unchanged.
\<close>

theorem edit_user_password_optional:
  assumes "''user_id'' \<in> dom (session w)"
    and "session w ''user_role'' = Some (TextV ''admin'')"
    and "frm ''username'' = Some username" and "frm ''role'' = Some role"
    and "frm ''full_name'' = Some full_name" and "frm ''email'' = Some email"
    and "x \<in> set (users (db w))" and "distinct (map u_id (users (db w)))"
  shows "((\<forall>v \<in> set (users (db w)). u_id v \<noteq> u_id x \<longrightarrow> u_username v \<noteq> username)
          \<and> (frm ''password'' = None \<or> frm ''password'' = Some []) \<longrightarrow>
            fst (edit_user generate_password_hash salt (u_id x) POST frm w) = Redirect ''/users''
          \<and> flashed (snd (edit_user generate_password_hash salt (u_id x) POST frm w))
              = flashed w @ [(''User updated successfully!'', ''success'')]
          \<and> select_user_by_id
                (db (snd (edit_user generate_password_hash salt (u_id x) POST frm w))) (u_id x)
              = Some \<lparr>u_id = u_id x, u_username = username,
                      u_password_hash = u_password_hash x, u_role = role,
                      u_full_name = full_name, u_email = email,
                      u_created_at = u_created_at x\<rparr>
          \<and> (check_password_hash (u_password_hash x) old_password \<longrightarrow>
               fst (login check_password_hash POST
                      [''username'' \<mapsto> username, ''password'' \<mapsto> old_password]
                      (snd (edit_user generate_password_hash salt (u_id x) POST frm w)))
               = Redirect ''/dashboard''))
       \<and> ((\<forall>v \<in> set (users (db w)). u_id v \<noteq> u_id x \<longrightarrow> u_username v \<noteq> username)
          \<and> frm ''password'' = Some new_password \<and> new_password \<noteq> [] \<longrightarrow>
            fst (edit_user generate_password_hash salt (u_id x) POST frm w) = Redirect ''/users''
          \<and> flashed (snd (edit_user generate_password_hash salt (u_id x) POST frm w))
              = flashed w @ [(''User updated successfully!'', ''success'')]
          \<and> select_user_by_id
                (db (snd (edit_user generate_password_hash salt (u_id x) POST frm w))) (u_id x)
              = Some \<lparr>u_id = u_id x, u_username = username,
                      u_password_hash = generate_password_hash salt new_password, u_role = role,
                      u_full_name = full_name, u_email = email,
                      u_created_at = u_created_at x\<rparr>
          \<and> (check_password_hash (generate_password_hash salt new_password) new_password \<longrightarrow>
               fst (login check_password_hash POST
                      [''username'' \<mapsto> username, ''password'' \<mapsto> new_password]
                      (snd (edit_user generate_password_hash salt (u_id x) POST frm w)))
               = Redirect ''/dashboard'')
          \<and> (\<not> check_password_hash (generate_password_hash salt new_password) old_password \<longrightarrow>
               fst (login check_password_hash POST
                      [''username'' \<mapsto> username, ''password'' \<mapsto> old_password]
                      (snd (edit_user generate_password_hash salt (u_id x) POST frm w)))
               = Render ''login.html'' ()))
       \<and> ((\<exists>v \<in> set (users (db w)). u_id v \<noteq> u_id x \<and> u_username v = username) \<longrightarrow>
            edit_user generate_password_hash salt (u_id x) POST frm w
              = (Render ''edit_user.html''
                   (u_id x, u_username x, u_role x, u_full_name x, u_email x),
                 w\<lparr>flashed := flashed w @
                     [(''Error updating user: UNIQUE constraint failed: users.username'',
                       ''error'')]\<rparr>)
          \<and> db (snd (edit_user generate_password_hash salt (u_id x) POST frm w)) = db w)"
proof (intro conjI impI; (elim conjE)?)
  let ?keep = "\<lambda>u. u\<lparr>u_username := username, u_role := role,
                      u_full_name := full_name, u_email := email\<rparr>"
  let ?w' = "snd (edit_user generate_password_hash salt (u_id x) POST frm w)"
  assume free: "\<forall>v \<in> set (users (db w)). u_id v \<noteq> u_id x \<longrightarrow> u_username v \<noteq> username"
    and nopw: "frm ''password'' = None \<or> frm ''password'' = Some []"
  note run = edit_user_keep_password [OF assms(1-6) nopw not_taken [OF free],
      of generate_password_hash salt]
  show "fst (edit_user generate_password_hash salt (u_id x) POST frm w) = Redirect ''/users''"
    by (simp add: run)
  show "flashed (snd (edit_user generate_password_hash salt (u_id x) POST frm w))
          = flashed w @ [(''User updated successfully!'', ''success'')]"
    by (simp add: run)
  have users': "users (db ?w') = map (\<lambda>u. if u_id u = u_id x then ?keep u else u) (users (db w))"
    by (simp add: run)
  show "select_user_by_id (db ?w') (u_id x)
        = Some \<lparr>u_id = u_id x, u_username = username,
                      u_password_hash = u_password_hash x, u_role = role,
                      u_full_name = full_name, u_email = email,
                      u_created_at = u_created_at x\<rparr>"
    unfolding select_user_by_id_def users'
    using find_updated_row [OF assms(8,7), of ?keep] by simp
  have sel: "select_user_by_username (db ?w') username = Some (?keep x)"
    unfolding select_user_by_username_def users'
    using find_updated_username [OF assms(8,7) free, of ?keep] by simp
  show "fst (login check_password_hash POST
                      [''username'' \<mapsto> username, ''password'' \<mapsto> old_password] ?w')
               = Redirect ''/dashboard''"
    if "check_password_hash (u_password_hash x) old_password"
    using that by (simp add: login_as [OF sel])
next
  let ?set = "\<lambda>u. u\<lparr>u_username := username,
                     u_password_hash := generate_password_hash salt new_password,
                     u_role := role, u_full_name := full_name, u_email := email\<rparr>"
  let ?w' = "snd (edit_user generate_password_hash salt (u_id x) POST frm w)"
  assume free: "\<forall>v \<in> set (users (db w)). u_id v \<noteq> u_id x \<longrightarrow> u_username v \<noteq> username"
    and pw: "frm ''password'' = Some new_password" "new_password \<noteq> []"
  note run = edit_user_new_password [OF assms(1-6) pw not_taken [OF free],
      of generate_password_hash salt]
  show "fst (edit_user generate_password_hash salt (u_id x) POST frm w) = Redirect ''/users''"
    by (simp add: run)
  show "flashed (snd (edit_user generate_password_hash salt (u_id x) POST frm w))
          = flashed w @ [(''User updated successfully!'', ''success'')]"
    by (simp add: run)
  have users': "users (db ?w') = map (\<lambda>u. if u_id u = u_id x then ?set u else u) (users (db w))"
    by (simp add: run)
  show "select_user_by_id (db ?w') (u_id x)
        = Some \<lparr>u_id = u_id x, u_username = username,
                      u_password_hash = generate_password_hash salt new_password, u_role = role,
                      u_full_name = full_name, u_email = email,
                      u_created_at = u_created_at x\<rparr>"
    unfolding select_user_by_id_def users'
    using find_updated_row [OF assms(8,7), of ?set] by simp
  have sel: "select_user_by_username (db ?w') username = Some (?set x)"
    unfolding select_user_by_username_def users'
    using find_updated_username [OF assms(8,7) free, of ?set] by simp
  show "fst (login check_password_hash POST
                      [''username'' \<mapsto> username, ''password'' \<mapsto> new_password] ?w')
               = Redirect ''/dashboard''"
    if "check_password_hash (generate_password_hash salt new_password) new_password"
    using that by (simp add: login_as [OF sel])
  show "fst (login check_password_hash POST
                      [''username'' \<mapsto> username, ''password'' \<mapsto> old_password] ?w')
               = Render ''login.html'' ()"
    if "\<not> check_password_hash (generate_password_hash salt new_password) old_password"
    using that by (simp add: login_as [OF sel])
next
  assume dup: "\<exists>v \<in> set (users (db w)). u_id v \<noteq> u_id x \<and> u_username v = username"
  with assms(7) have taken: "username_taken_by_other (db w) (u_id x) username"
    by (auto simp: username_taken_by_other_def)
  note run = edit_user_conflict [OF assms(1-6) taken, of generate_password_hash salt]
  have sel: "select_user_by_id (db w) (u_id x) = Some x"
    unfolding select_user_by_id_def by (rule find_unique_key [OF assms(8,7)])
  show "edit_user generate_password_hash salt (u_id x) POST frm w
              = (Render ''edit_user.html''
                   (u_id x, u_username x, u_role x, u_full_name x, u_email x),
                 w\<lparr>flashed := flashed w @
                     [(''Error updating user: UNIQUE constraint failed: users.username'',
                       ''error'')]\<rparr>)"
    by (simp add: run edit_user_form_def sel)
  show "db (snd (edit_user generate_password_hash salt (u_id x) POST frm w)) = db w"
    by (simp add: run edit_user_form_def sel)
qed

theorem edit_user_password_optional_witness:
  "fst (login tagged_check POST [''username'' \<mapsto> ''dr.ho'', ''password'' \<mapsto> ''stetho'']
          (snd (edit_user tagged_hash ''z9'' 2 POST form_rename_drho admin_world)))
     = Redirect ''/dashboard''
   \<and> select_user_by_id
        (db (snd (edit_user tagged_hash ''z9'' 2 POST form_rename_drho admin_world))) 2
     = Some \<lparr>u_id = 2, u_username = ''dr.ho'', u_password_hash = ''q7$ohtets'',
             u_role = ''doctor'', u_full_name = ''Dr. Ho MD'', u_email = ''ho@clinic.org'',
             u_created_at = ''2024-01-05 10:00:00''\<rparr>
   \<and> fst (login tagged_check POST [''username'' \<mapsto> ''dr.ho'', ''password'' \<mapsto> ''stetho'']
          (snd (edit_user tagged_hash ''z9'' 2 POST
                  (form_rename_drho(''password'' \<mapsto> ''n3w'')) admin_world)))
     = Render ''login.html'' ()
   \<and> fst (login tagged_check POST [''username'' \<mapsto> ''dr.ho'', ''password'' \<mapsto> ''n3w'']
          (snd (edit_user tagged_hash ''z9'' 2 POST
                  (form_rename_drho(''password'' \<mapsto> ''n3w'')) admin_world)))
     = Redirect ''/dashboard''
   \<and> db (snd (edit_user tagged_hash ''z9'' 2 POST form_take_admin admin_world)) = clinic_db
   \<and> flashed (snd (edit_user tagged_hash ''z9'' 2 POST form_take_admin admin_world))
     = [(''Error updating user: UNIQUE constraint failed: users.username'', ''error'')]"
  using edit_user_password_optional
          [of admin_world form_rename_drho "''dr.ho''" "''doctor''" "''Dr. Ho MD''"
              "''ho@clinic.org''" user_drho tagged_hash "''z9''" tagged_check "''stetho''"
              "''n3w''"]
        edit_user_password_optional
          [of admin_world "form_rename_drho(''password'' \<mapsto> ''n3w'')" "''dr.ho''"
              "''doctor''" "''Dr. Ho MD''"
              "''ho@clinic.org''" user_drho tagged_hash "''z9''" tagged_check "''stetho''"
              "''n3w''"]
        edit_user_password_optional
          [of admin_world form_take_admin "''admin''" "''doctor''" "''Dr. Ho MD''"
              "''ho@clinic.org''" user_drho tagged_hash "''z9''" tagged_check "''stetho''"
              "''n3w''"]
  by (simp add: clinic_defs form_rename_drho_def form_take_admin_def)

text \<open>
  C4 as stated fails: renaming the doctor (id 2), without a new password, to the
  username the administrator holds replaces nothing. The row keeps the username
  \<^verbatim>\<open>drho\<close>, role, full name and email it had, the form is shown again and the notice
  reports the UNIQUE constraint.
\<close>

theorem edit_user_as_stated_counterexample:
  "edit_user tagged_hash ''z9'' 2 POST form_take_admin admin_world =
     (Render ''edit_user.html'' (2, ''drho'', ''doctor'', ''Dr. Ho'', ''ho@hospital.com''),
      admin_world\<lparr>flashed :=
        [(''Error updating user: UNIQUE constraint failed: users.username'', ''error'')]\<rparr>)
   \<and> select_user_by_id
       (db (snd (edit_user tagged_hash ''z9'' 2 POST form_take_admin admin_world))) 2
     = Some user_drho
   \<and> u_username user_drho = ''drho'' \<and> form_take_admin ''username'' = Some ''admin''
   \<and> form_take_admin ''password'' = None"
  by (simp add: edit_user_def admin_required_def edit_user_view_def edit_user_form_def
      update_user_def update_user_with_password_def username_taken_by_other_def
      select_user_by_id_def flash_def clinic_defs form_take_admin_def)

text \<open>
  C5. The claim asks for NotFound on an id that resolves to no user. On the clinic,
  which has no user 99, the POST reports "User updated successfully!" and redirects to
  the users list, while the GET branch of the same view reports "User not found!".
\<close>

theorem edit_user_missing_id_reports_success:
  "edit_user tagged_hash ''z9'' 99 POST form_rename_drho admin_world =
     (Redirect ''/users'',
      admin_world\<lparr>flashed := [(''User updated successfully!'', ''success'')]\<rparr>)
   \<and> edit_user tagged_hash ''z9'' 99 GET Map.empty admin_world =
     (Redirect ''/users'', admin_world\<lparr>flashed := [(''User not found!'', ''error'')]\<rparr>)"
  by (simp add: edit_user_def admin_required_def edit_user_view_def edit_user_form_def
      update_user_def username_taken_by_other_def select_user_by_id_def flash_def
      clinic_defs form_rename_drho_def)

section \<open>Ordering and pattern matching\<close>

text \<open>
  Whatever the comparison, \<^verbatim>\<open>order_by\<close> returns the same rows, each as often as it was
  given; when the comparison is total and transitive the result is sorted by it.
\<close>

lemma mset_insert_by: "mset (insert_by before x ys) = add_mset x (mset ys)"
  by (induction ys) simp_all

lemma mset_order_by: "mset (order_by before rows) = mset rows"
  unfolding order_by_def by (induction rows) (simp_all add: mset_insert_by)

lemma set_insert_by: "set (insert_by before x ys) = insert x (set ys)"
  using mset_insert_by [of before x ys] by (metis set_mset_add_mset_insert set_mset_mset)

lemma sorted_insert_by:
  assumes total: "\<And>a b. before a b \<or> before b a"
    and trans: "\<And>a b c. before a b \<Longrightarrow> before b c \<Longrightarrow> before a c"
    and "sorted_wrt before ys"
  shows "sorted_wrt before (insert_by before x ys)"
  using assms(3)
proof (induction ys)
  case Nil
  show ?case by simp
next
  case (Cons y ys)
  show ?case
  proof (cases "before x y")
    case True
    with Cons.prems show ?thesis by (auto intro: trans)
  next
    case False
    with total have "before y x" by blast
    with Cons False show ?thesis by (auto simp: set_insert_by)
  qed
qed

lemma sorted_order_by:
  assumes "\<And>a b. before a b \<or> before b a"
    and "\<And>a b c. before a b \<Longrightarrow> before b c \<Longrightarrow> before a c"
  shows "sorted_wrt before (order_by before rows)"
  unfolding order_by_def
  by (induction rows) (simp_all add: sorted_insert_by [OF assms])


lemma sorted_by_visit_date_desc:
  "sorted_wrt by_visit_date_desc (order_by by_visit_date_desc rows)"
  by (rule sorted_order_by) (auto simp: by_visit_date_desc_def)

lemma sorted_by_date_desc_time_desc:
  "sorted_wrt by_date_desc_time_desc (order_by by_date_desc_time_desc rows)"
  by (rule sorted_order_by) (auto simp: by_date_desc_time_desc_def)






lemma utf8_length_append: "utf8_length (a @ b) = utf8_length a + utf8_length b"
  by (simp add: utf8_length_def)



lemma sql_like_too_long: "50000 < utf8_length pattern \<Longrightarrow> sql_like pattern s = None"
  by (simp add: sql_like_def)


lemma sql_or_Some: "sql_or (Some a) (Some b) = Some (a \<or> b)"
  by (cases a) (simp_all add: sql_or_def)

lemma select_where_all_defined:
  assumes "\<And>r. r \<in> set rows \<Longrightarrow> cond r = Some (keep r)"
  shows "select_where cond rows = Some (filter keep rows)"
  using assms by (induction rows) simp_all

lemma select_where_error:
  assumes "rows \<noteq> []" and "\<And>r. cond r = None"
  shows "select_where cond rows = None"
  using assms by (cases rows) simp_all

lemma select_where_part:
  "select_where cond rows = Some hits \<Longrightarrow> mset hits \<subseteq># mset rows"
proof (induction rows arbitrary: hits)
  case Nil
  then show ?case by simp
next
  case (Cons r rs)
  from Cons.prems obtain keep kept where k: "cond r = Some keep"
    "select_where cond rs = Some kept" "hits = (if keep then r # kept else kept)"
    by (auto split: option.splits)
  from Cons.IH [OF k(2)] have "mset kept \<subseteq># mset rs" .
  show ?case
  proof (cases keep)
    case True
    with k(3) \<open>mset kept \<subseteq># mset rs\<close> show ?thesis by simp
  next
    case False
    have "mset rs \<subseteq># mset (r # rs)" by simp
    with \<open>mset kept \<subseteq># mset rs\<close> have "mset kept \<subseteq># mset (r # rs)"
      by (rule subset_mset.trans)
    with False k(3) show ?thesis by simp
  qed
qed

section \<open>Listing patients\<close>






section \<open>Listing appointments\<close>

lemma sorted_wrt_precedes:
  assumes "sorted_wrt before (xs @ x # ys @ y # zs)"
  shows "before x y"
  using assms by (simp add: sorted_wrt_append)

text \<open>
  C8. For a logged-in request the appointment listing is sorted by date descending and,
  for equal dates, by time descending, dates and times compared as text: of any two
  listed rows the one listed first has the later or the same date, and when the dates
  are equal the later or the same time. The rows listed are rows of the table, and
  without a search text they are all of them, so every pair of appointments in the
  store is listed in that order. As text, \<^verbatim>\<open>2024-01-01\<close> is smaller than
  \<^verbatim>\<open>2024-01-02\<close>, so an appointment on the second is listed before one on the first.
  This holds for every request that has no search text, or a search pattern of at most
  50000 bytes, or an empty table; the one remaining case, a longer pattern on a table
  with rows, is refused by the engine and ends with status 500 instead of a listing.
\<close>

theorem view_appointments_newest_first:
  assumes "''user_id'' \<in> dom (session w)"
    and "args ''search'' = Some search \<or> (args ''search'' = None \<and> search = [])"
  shows "(search = [] \<or> utf8_length (search_pattern search) \<le> 50000
            \<or> appointments (db w) = [] \<longrightarrow>
          (\<exists>rows. view_appointments args w =
                    (Render ''view_appointments.html'' (rows, search), w)
             \<and> mset rows \<subseteq># mset (appointments (db w))
             \<and> (search = [] \<longrightarrow> mset rows = mset (appointments (db w)))
             \<and> sorted_wrt (\<lambda>x y. a_date y < a_date x
                                  \<or> (a_date x = a_date y \<and> a_time y \<le> a_time x)) rows
             \<and> (\<forall>xs x ys y zs. rows = xs @ x # ys @ y # zs \<longrightarrow>
                   a_date y \<le> a_date x \<and> (a_date x = a_date y \<longrightarrow> a_time y \<le> a_time x))))
       \<and> (search \<noteq> [] \<and> 50000 < utf8_length (search_pattern search)
            \<and> appointments (db w) \<noteq> [] \<longrightarrow>
          view_appointments args w = (Abort 500, w))
       \<and> (''2024-01-01'' :: string) < ''2024-01-02''"
proof (intro conjI impI)
  let ?cond = "\<lambda>a. sql_or (sql_like (search_pattern search) (a_patient_name a))
                          (sql_like (search_pattern search) (a_doctor_name a))"
  have arg: "request_arg args ''search'' [] = search"
    using assms(2) by (auto simp: request_arg_def)
  have run: "view_appointments args w =
               (if search \<noteq> []
                then (case select_where ?cond (appointments (db w)) of
                        None \<Rightarrow> (Abort 500, w)
                      | Some hits \<Rightarrow>
                          (Render ''view_appointments.html''
                             (order_by by_date_desc_time_desc hits, search), w))
                else (Render ''view_appointments.html''
                        (order_by by_date_desc_time_desc (appointments (db w)), search), w))"
    using assms(1) arg
    by (simp add: view_appointments_def login_required_def view_appointments_view_def)
  show "(''2024-01-01'' :: string) < ''2024-01-02''" by simp
  {
    assume "search \<noteq> [] \<and> 50000 < utf8_length (search_pattern search)
            \<and> appointments (db w) \<noteq> []"
    then have ne: "search \<noteq> []" "appointments (db w) \<noteq> []"
      and long: "50000 < utf8_length (search_pattern search)" by simp_all
    have "?cond a = None" for a
      by (simp add: sql_like_too_long [OF long] sql_or_def)
    with ne(2) have "select_where ?cond (appointments (db w)) = None"
      by (rule select_where_error)
    with ne(1) show "view_appointments args w = (Abort 500, w)"
      by (simp add: run)
  }
  assume ok: "search = [] \<or> utf8_length (search_pattern search) \<le> 50000
            \<or> appointments (db w) = []"
  have "\<exists>hits. view_appointments args w =
                 (Render ''view_appointments.html''
                    (order_by by_date_desc_time_desc hits, search), w)
              \<and> mset hits \<subseteq># mset (appointments (db w))
              \<and> (search = [] \<longrightarrow> hits = appointments (db w))"
  proof (cases "search = []")
    case True
    with run show ?thesis by auto
  next
    case False
    have "\<exists>hits. select_where ?cond (appointments (db w)) = Some hits"
    proof (cases "appointments (db w) = []")
      case True
      then show ?thesis by simp
    next
      case False
      with ok \<open>search \<noteq> []\<close> have "\<not> 50000 < utf8_length (search_pattern search)"
        by simp
      let ?keep = "\<lambda>a. like_match (c_string (search_pattern search))
                          (c_string (a_patient_name a))
                      \<or> like_match (c_string (search_pattern search))
                           (c_string (a_doctor_name a))"
      from \<open>\<not> 50000 < utf8_length (search_pattern search)\<close>
      have "?cond a = Some (?keep a)" for a
        by (simp add: sql_like_def sql_or_Some)
      then have "select_where ?cond (appointments (db w))
                 = Some (filter ?keep (appointments (db w)))"
        by (intro select_where_all_defined)
      then show ?thesis by blast
    qed
    then obtain hits where hits: "select_where ?cond (appointments (db w)) = Some hits"
      by blast
    from select_where_part [OF hits] have "mset hits \<subseteq># mset (appointments (db w))" .
    with False hits run show ?thesis by auto
  qed
  then obtain hits where hits:
    "view_appointments args w =
       (Render ''view_appointments.html'' (order_by by_date_desc_time_desc hits, search), w)"
    "mset hits \<subseteq># mset (appointments (db w))"
    "search = [] \<longrightarrow> hits = appointments (db w)"
    by blast
  let ?rows = "order_by by_date_desc_time_desc hits"
  have part: "mset ?rows \<subseteq># mset (appointments (db w))"
    using hits(2) by (simp add: mset_order_by)
  have whole: "search = [] \<longrightarrow> mset ?rows = mset (appointments (db w))"
    using hits(3) by (simp add: mset_order_by)
  have srt: "sorted_wrt by_date_desc_time_desc ?rows"
    by (rule sorted_by_date_desc_time_desc)
  then have ordered: "sorted_wrt (\<lambda>x y. a_date y < a_date x
                                \<or> (a_date x = a_date y \<and> a_time y \<le> a_time x)) ?rows"
    by (simp add: by_date_desc_time_desc_def [abs_def])
  have pairs: "\<forall>xs x ys y zs. ?rows = xs @ x # ys @ y # zs \<longrightarrow>
                 a_date y \<le> a_date x \<and> (a_date x = a_date y \<longrightarrow> a_time y \<le> a_time x)"
  proof (intro allI impI)
    fix xs x ys y zs
    assume "?rows = xs @ x # ys @ y # zs"
    with srt have "sorted_wrt by_date_desc_time_desc (xs @ x # ys @ y # zs)" by simp
    then have "by_date_desc_time_desc x y" by (rule sorted_wrt_precedes)
    then show "a_date y \<le> a_date x \<and> (a_date x = a_date y \<longrightarrow> a_time y \<le> a_time x)"
      by (auto simp: by_date_desc_time_desc_def)
  qed
  from hits(1) part whole ordered pairs
  show "\<exists>rows. view_appointments args w =
                    (Render ''view_appointments.html'' (rows, search), w)
             \<and> mset rows \<subseteq># mset (appointments (db w))
             \<and> (search = [] \<longrightarrow> mset rows = mset (appointments (db w)))
             \<and> sorted_wrt (\<lambda>x y. a_date y < a_date x
                                  \<or> (a_date x = a_date y \<and> a_time y \<le> a_time x)) rows
             \<and> (\<forall>xs x ys y zs. rows = xs @ x # ys @ y # zs \<longrightarrow>
                   a_date y \<le> a_date x \<and> (a_date x = a_date y \<longrightarrow> a_time y \<le> a_time x))"
    by blast
qed

theorem view_appointments_newest_first_witness:
  "''user_id'' \<in> dom (session doctor_clinic_world)
   \<and> view_appointments Map.empty doctor_clinic_world =
       (Render ''view_appointments.html'' ([appt3, appt2, appt1], []), doctor_clinic_world)
   \<and> sorted_wrt (\<lambda>x y. a_date y < a_date x \<or> (a_date x = a_date y \<and> a_time y \<le> a_time x))
        [appt3, appt2, appt1]
   \<and> map (\<lambda>a. (a_date a, a_time a)) [appt3, appt2, appt1]
       = [(''2024-01-02'', ''14:15''), (''2024-01-02'', ''08:30''), (''2024-01-01'', ''09:00'')]"
proof -
  have logged_in: "''user_id'' \<in> dom (session doctor_clinic_world)"
    by (simp add: doctor_clinic_world_def doctor_session_def)
  have listing: "view_appointments Map.empty doctor_clinic_world =
       (Render ''view_appointments.html'' ([appt3, appt2, appt1], []), doctor_clinic_world)"
    by (simp add: view_appointments_def login_required_def view_appointments_view_def
      request_arg_def order_by_def by_date_desc_time_desc_def doctor_clinic_world_def
      doctor_session_def clinic_db_def appt1_def appt2_def appt3_def Let_def)
  from view_appointments_newest_first [OF logged_in, of Map.empty "[]"]
  obtain rows where
    "view_appointments Map.empty doctor_clinic_world =
       (Render ''view_appointments.html'' (rows, []), doctor_clinic_world)"
    and "sorted_wrt (\<lambda>x y. a_date y < a_date x
                           \<or> (a_date x = a_date y \<and> a_time y \<le> a_time x)) rows"
    by auto
  with listing have "sorted_wrt (\<lambda>x y. a_date y < a_date x
                           \<or> (a_date x = a_date y \<and> a_time y \<le> a_time x))
                       [appt3, appt2, appt1]"
    by simp
  moreover have "map (\<lambda>a. (a_date a, a_time a)) [appt3, appt2, appt1]
       = [(''2024-01-02'', ''14:15''), (''2024-01-02'', ''08:30''), (''2024-01-01'', ''09:00'')]"
    by (simp add: appt1_def appt2_def appt3_def)
  ultimately show ?thesis using logged_in listing by blast
qed

section \<open>Patient history\<close>

text \<open>
  C6, as amended. With patient ids unique (the primary key), a logged-in request for
  the history of a \<open>patient_id\<close> that fits a signed 64-bit integer (at least
  \<open>- 2 ^ 63\<close> and below \<open>2 ^ 63\<close>) is answered with "Patient not found!" and a redirect to
  the patient list exactly when no patient row has that id, whatever the medical
  records table holds; otherwise it shows that patient together with exactly the
  medical records whose patient_id is that id, sorted by visit date descending.
\<close>

theorem patient_history_found_or_not:
  assumes "''user_id'' \<in> dom (session w)"
    and "distinct (map p_id (patients (db w)))"
    and "- (2 ^ 63) \<le> patient_id" and "patient_id < 2 ^ 63"
  shows "((\<forall>p \<in> set (patients (db w)). p_id p \<noteq> patient_id) \<longrightarrow>
            patient_history patient_id w =
              (Redirect ''/view_patients'',
               w\<lparr>flashed := flashed w @ [(''Patient not found!'', ''error'')]\<rparr>))
       \<and> (\<forall>p \<in> set (patients (db w)). p_id p = patient_id \<longrightarrow>
            (\<exists>records.
               patient_history patient_id w =
                 (Render ''patient_history.html'' (p, records), w)
             \<and> mset records =
                 filter_mset (\<lambda>r. mr_patient_id r = Some patient_id)
                   (mset (medical_records (db w)))
             \<and> sorted_wrt (\<lambda>x y. mr_visit_date y \<le> mr_visit_date x) records))
       \<and> ((fst (patient_history patient_id w) = Redirect ''/view_patients'')
            = (\<forall>p \<in> set (patients (db w)). p_id p \<noteq> patient_id))"
proof -
  let ?records = "order_by by_visit_date_desc
                    (filter (\<lambda>r. mr_patient_id r = Some patient_id) (medical_records (db w)))"
  have fits: "sqlite_int_ok patient_id"
    using assms(3,4) by (simp add: sqlite_int_ok_def)
  have missing: "patient_history patient_id w =
              (Redirect ''/view_patients'',
               w\<lparr>flashed := flashed w @ [(''Patient not found!'', ''error'')]\<rparr>)"
    if "\<forall>p \<in> set (patients (db w)). p_id p \<noteq> patient_id"
  proof -
    from that have "find (\<lambda>p. p_id p = patient_id) (patients (db w)) = None"
      by (rule find_absent_key)
    with assms(1) fits show ?thesis
      by (simp add: patient_history_def login_required_def patient_history_view_def flash_def)
  qed
  have found: "patient_history patient_id w =
                 (Render ''patient_history.html'' (p, ?records), w)"
    if "p \<in> set (patients (db w))" and "p_id p = patient_id" for p
  proof -
    from find_unique_key [OF assms(2) that(1)] that(2)
    have "find (\<lambda>p. p_id p = patient_id) (patients (db w)) = Some p" by simp
    with assms(1) fits show ?thesis
      by (simp add: patient_history_def login_required_def patient_history_view_def)
  qed
  have content: "mset ?records =
                 filter_mset (\<lambda>r. mr_patient_id r = Some patient_id)
                   (mset (medical_records (db w)))"
    by (simp add: mset_order_by)
  have "sorted_wrt by_visit_date_desc ?records" by (rule sorted_by_visit_date_desc)
  then have ordered: "sorted_wrt (\<lambda>x y. mr_visit_date y \<le> mr_visit_date x) ?records"
    by (simp add: by_visit_date_desc_def [abs_def])
  have iff: "(fst (patient_history patient_id w) = Redirect ''/view_patients'')
            = (\<forall>p \<in> set (patients (db w)). p_id p \<noteq> patient_id)"
  proof (cases "\<forall>p \<in> set (patients (db w)). p_id p \<noteq> patient_id")
    case True
    with missing show ?thesis by simp
  next
    case False
    then obtain p where "p \<in> set (patients (db w))" "p_id p = patient_id" by blast
    from found [OF this] False show ?thesis by simp
  qed
  from missing found content ordered iff show ?thesis by blast
qed

theorem patient_history_found_or_not_witness:
  "patient_history 3 doctor_clinic_world =
     (Redirect ''/view_patients'',
      doctor_clinic_world\<lparr>flashed := [(''Patient not found!'', ''error'')]\<rparr>)
   \<and> rec2 \<in> set (medical_records (db doctor_clinic_world)) \<and> mr_patient_id rec2 = Some 3
   \<and> patient_history 1 doctor_clinic_world =
     (Render ''patient_history.html'' (pat_alice, [rec3, rec1]), doctor_clinic_world)"
  using patient_history_found_or_not [of doctor_clinic_world 3]
    patient_history_found_or_not [of doctor_clinic_world 1]
  by (simp add: patient_history_def login_required_def patient_history_view_def flash_def
      sqlite_int_ok_def
      order_by_def by_visit_date_desc_def doctor_clinic_world_def doctor_session_def
      clinic_db_def pat_alice_def pat_zed_def pat_bob_def rec1_def rec2_def rec3_def rec4_def)

text \<open>
  C6 as stated fails for an id the URL accepts but the engine cannot hold: the history
  of patient \<open>2 ^ 63\<close>, an id no patient row has, is not answered with "Patient not
  found!"; binding the id raises \<^verbatim>\<open>OverflowError\<close> and the request ends with status 500.
\<close>

theorem patient_history_huge_id_counterexample:
  "patient_history 9223372036854775808 doctor_clinic_world = (Abort 500, doctor_clinic_world)
   \<and> 9223372036854775808 \<notin> p_id ` set (patients (db doctor_clinic_world))
   \<and> (9223372036854775808 :: int) = 2 ^ 63"
  by (simp add: patient_history_def login_required_def patient_history_view_def
      sqlite_int_ok_def doctor_clinic_world_def doctor_session_def
      clinic_db_def pat_alice_def pat_zed_def pat_bob_def)

section \<open>Viewing one medical record\<close>

lemma joined_rows:
  "set (select_record_with_patient d ident)
   = {(mr, p_name p) | mr p. mr \<in> set (medical_records d) \<and> p \<in> set (patients d)
                            \<and> mr_patient_id mr = Some (p_id p) \<and> mr_id mr = ident}"
  unfolding select_record_with_patient_def by (auto split: if_splits)

text \<open>
  C10, as amended. A logged-in request for the medical record \<open>ident\<close>, an id that
  fits a signed 64-bit integer (at least \<open>- 2 ^ 63\<close> and below \<open>2 ^ 63\<close>), is answered
  with "Medical record not found!" and a redirect to the record list exactly when no
  record with that id has a patient_id that is the id of a patient row: both when no
  record has the id and when the record exists but its patient does not. Otherwise the
  view shows a record with that id together with the name of its patient.
\<close>

theorem view_medical_record_inner_join:
  assumes "''user_id'' \<in> dom (session w)"
    and "- (2 ^ 63) \<le> ident" and "ident < 2 ^ 63"
  shows "((view_medical_record ident w =
             (Redirect ''/medical_records'',
              w\<lparr>flashed := flashed w @ [(''Medical record not found!'', ''error'')]\<rparr>))
          = (\<forall>mr \<in> set (medical_records (db w)). mr_id mr = ident \<longrightarrow>
               (\<forall>p \<in> set (patients (db w)). mr_patient_id mr \<noteq> Some (p_id p))))
       \<and> ((\<exists>mr \<in> set (medical_records (db w)). mr_id mr = ident
               \<and> (\<exists>p \<in> set (patients (db w)). mr_patient_id mr = Some (p_id p))) \<longrightarrow>
            (\<exists>mr \<in> set (medical_records (db w)). \<exists>p \<in> set (patients (db w)).
               mr_id mr = ident \<and> mr_patient_id mr = Some (p_id p)
             \<and> view_medical_record ident w =
                 (Render ''view_medical_record.html'' (mr, p_name p), w)))"
proof -
  let ?joined = "select_record_with_patient (db w) ident"
  let ?nf = "(Redirect ''/medical_records'',
              w\<lparr>flashed := flashed w @ [(''Medical record not found!'', ''error'')]\<rparr>)"
  let ?none = "\<forall>mr \<in> set (medical_records (db w)). mr_id mr = ident \<longrightarrow>
               (\<forall>p \<in> set (patients (db w)). mr_patient_id mr \<noteq> Some (p_id p))"
  have fits: "sqlite_int_ok ident"
    using assms(2,3) by (simp add: sqlite_int_ok_def)
  have run: "view_medical_record ident w =
               (case ?joined of
                  [] \<Rightarrow> (Redirect (url_for EP_view_medical_records),
                         flash ''Medical record not found!'' ''error'' w)
                | record # _ \<Rightarrow> (Render ''view_medical_record.html'' record, w))"
    using assms(1) fits
    by (simp add: view_medical_record_def login_required_def view_medical_record_view_def)
  have empty: "?joined = [] \<longleftrightarrow> ?none"
  proof -
    have "?joined = [] \<longleftrightarrow> set ?joined = {}" by (simp only: set_empty)
    also have "\<dots> \<longleftrightarrow> ?none" unfolding joined_rows by blast
    finally show ?thesis .
  qed
  show ?thesis
  proof (cases ?joined)
    case Nil
    with empty have none: ?none by simp
    have "view_medical_record ident w = ?nf"
      by (simp add: run Nil flash_def)
    with none show ?thesis by blast
  next
    case (Cons r rest)
    then have "r \<in> set ?joined" by simp
    then obtain mr p where r: "r = (mr, p_name p)" "mr \<in> set (medical_records (db w))"
      "p \<in> set (patients (db w))" "mr_patient_id mr = Some (p_id p)" "mr_id mr = ident"
      unfolding joined_rows by blast
    have res: "view_medical_record ident w =
                 (Render ''view_medical_record.html'' (mr, p_name p), w)"
      by (simp add: run Cons r(1))
    from Cons empty have "\<not> ?none" by simp
    moreover from res have "view_medical_record ident w \<noteq> ?nf" by simp
    ultimately show ?thesis using r res by blast
  qed
qed

theorem view_medical_record_inner_join_witness:
  "rec2 \<in> set (medical_records (db doctor_clinic_world)) \<and> mr_id rec2 = 2
   \<and> view_medical_record 2 doctor_clinic_world =
       (Redirect ''/medical_records'',
        doctor_clinic_world\<lparr>flashed := [(''Medical record not found!'', ''error'')]\<rparr>)
   \<and> view_medical_record 4 doctor_clinic_world =
       (Redirect ''/medical_records'',
        doctor_clinic_world\<lparr>flashed := [(''Medical record not found!'', ''error'')]\<rparr>)
   \<and> view_medical_record 7 doctor_clinic_world =
       (Redirect ''/medical_records'',
        doctor_clinic_world\<lparr>flashed := [(''Medical record not found!'', ''error'')]\<rparr>)
   \<and> view_medical_record 3 doctor_clinic_world =
       (Render ''view_medical_record.html'' (rec3, ''Alice Moreau''), doctor_clinic_world)"
  using view_medical_record_inner_join [of doctor_clinic_world 2]
    view_medical_record_inner_join [of doctor_clinic_world 3]
  by (simp add: view_medical_record_def login_required_def view_medical_record_view_def
      sqlite_int_ok_def
      select_record_with_patient_def flash_def doctor_clinic_world_def doctor_session_def
      clinic_db_def pat_alice_def pat_zed_def pat_bob_def rec1_def rec2_def rec3_def rec4_def)

text \<open>
  C10 as stated fails for an id the URL accepts but the engine cannot hold: the request
  for medical record \<open>2 ^ 63\<close>, an id no record has, is not answered with "Medical
  record not found!"; binding the id raises \<^verbatim>\<open>OverflowError\<close> and the request ends
  with status 500.
\<close>

theorem view_medical_record_huge_id_counterexample:
  "view_medical_record 9223372036854775808 doctor_clinic_world
     = (Abort 500, doctor_clinic_world)
   \<and> 9223372036854775808 \<notin> mr_id ` set (medical_records (db doctor_clinic_world))
   \<and> (9223372036854775808 :: int) = 2 ^ 63"
  by (simp add: view_medical_record_def login_required_def view_medical_record_view_def
      sqlite_int_ok_def doctor_clinic_world_def doctor_session_def
      clinic_db_def rec1_def rec2_def rec3_def rec4_def)

end
